theory Spec2Isabelle
  imports Complex_Main
begin

section \<open>Values, errors and observable effects\<close>

text \<open>
  The source is TypeScript. A JavaScript number is modelled as a real (the literals of the
  source, \<open>1000\<close>, \<open>0.75\<close>, \<open>0\<close>, are exact); where a number may be \<open>NaN\<close> (the result of
  \<open>parseInt\<close>) it is a \<open>number option\<close> with \<open>None\<close> for \<open>NaN\<close>. A string is a list of
  code units below 256. An optional field \<open>f?: T\<close> is a \<open>T option\<close>, \<open>None\<close> being
  \<open>undefined\<close>.
\<close>

type_synonym number = real

text \<open>A thrown value: \<open>new Error(msg)\<close>, or the \<open>TypeError\<close> the engine raises itself.\<close>

datatype error = Error string | TypeError string

text \<open>A JSON-like JavaScript value, as a request body or a collaborator's answer.\<close>

datatype jsval =
    Undefined
  | Null
  | Boolean bool
  | Number number
  | String string
  | Array "jsval list"
  | Object "(string \<times> jsval) list"

text \<open>
  Everything the code does to the outside is appended to a trace: the calls to the platform
  clients and to the coordination service, with their arguments, and the lines handed to
  the two loggers (\<open>elizaLogger\<close> in the facade, \<open>logger\<close> in the server).
\<close>

datatype event =
    Call_tweet string "string option"
  | Call_twitter_initialize
  | Call_discord_sendMessage string string
  | ElizaLogger_error string error
  | ElizaLogger_success string
  | Call_registerAgent jsval
  | Call_updateTaskStatus jsval jsval jsval
  | Logger_error string error

type_synonym trace = "event list"

text \<open>The settled value of a \<open>Promise<T>\<close>: \<open>Inl e\<close> rejected with \<open>e\<close>, \<open>Inr v\<close> fulfilled.\<close>

type_synonym 'a settled = "error + 'a"

section \<open>Configuration (interface SocialConfig)\<close>

record discord_config =
  token :: string
  guildId :: string

record content_rules =
  maxEmojis :: number
  maxHashtags :: number
  minInterval :: number

record twitter_config =
  oauthClientId :: string
  oauthClientSecret :: string
  apiKey :: string
  apiSecret :: string
  accessToken :: string
  accessSecret :: string
  bearerToken :: string
  mockMode :: "bool option"
  maxRetries :: "number option"
  retryDelay :: "number option"
  contentRules :: "content_rules option"

record helius_config =
  helius_apiKey :: string

record redis_config =
  host :: "string option"
  port :: "number option"
  password :: "string option"

record 'ai SocialConfig =
  services_ai :: 'ai
  discord :: "discord_config option"
  twitter :: "twitter_config option"
  helius :: "helius_config option"
  redis :: "redis_config option"

section \<open>Collaborator objects, as the arguments they were constructed with\<close>

text \<open>
  The classes \<open>RedisCacheService\<close>, \<open>TokenProvider\<close>, \<open>WalletProvider\<close>, \<open>Connection\<close>,
  \<open>PublicKey\<close>, \<open>JupiterPriceV2Service\<close>, \<open>MarketDataProcessor\<close>, \<open>TwitterService\<close> and
  \<open>DiscordService\<close> are imported by the source and not part of it. An object of such a
  class is the value of its constructor arguments. Whether its constructor throws on
  those arguments, and what its methods do, are parameters (see \<open>library\<close> and
  \<open>platforms\<close> below).
\<close>

record redis_options =
  r_host :: string
  r_port :: "number option"
  r_password :: string
  keyPrefix :: string
  enableCircuitBreaker :: bool

datatype RedisCacheService = RedisCacheService redis_options

datatype Connection = Connection string

datatype PublicKey = PublicKey string

datatype WalletProvider = WalletProvider Connection PublicKey

datatype TokenProvider = TokenProvider string WalletProvider RedisCacheService string

record rpc_connection =
  url :: string
  walletPublicKey :: string

record jupiter_config =
  j_redis :: redis_options
  rpcConnection :: rpc_connection

datatype JupiterPriceV2Service =
  JupiterPriceV2Service jupiter_config TokenProvider RedisCacheService

datatype MarketDataProcessor = MarketDataProcessor string string "string option"

record market_data_config =
  heliusApiKey :: string
  updateInterval :: number
  volatilityThreshold :: number

record twitter_service_config =
  t_apiKey :: string
  t_apiSecret :: string
  t_accessToken :: string
  t_accessSecret :: string
  t_bearerToken :: string
  t_mockMode :: bool
  t_maxRetries :: number
  t_retryDelay :: number
  t_baseUrl :: string
  t_contentRules :: content_rules
  t_oauthClientId :: string
  t_oauthClientSecret :: string
  marketDataConfig :: market_data_config
  tokenAddresses :: "string list"

datatype 'ai TwitterService =
  TwitterService twitter_service_config 'ai MarketDataProcessor

record 'ai discord_service_config =
  d_token :: string
  d_guildId :: string
  aiService :: 'ai

datatype 'ai DiscordService = DiscordService "'ai discord_service_config"

text \<open>The fields of \<open>class SocialService\<close>.\<close>

record 'ai SocialService =
  twitterService :: "'ai TwitterService option"
  discordService :: "'ai DiscordService option"
  dataProcessor :: MarketDataProcessor
  jupiterService :: JupiterPriceV2Service

record SocialMetrics =
  followers :: number
  engagement :: number
  activity :: string

section \<open>The constructor\<close>

text \<open>
  \<open>a || b\<close> on a string that may be undefined: \<open>a\<close> when it is truthy, that is defined
  and not empty, else \<open>b\<close>.
\<close>

definition or_string :: "string option \<Rightarrow> string \<Rightarrow> string" where
  "or_string a b = (case a of None \<Rightarrow> b | Some s \<Rightarrow> if s = [] then b else s)"

text \<open>\<open>a || b\<close> on a number that may be undefined: zero is falsy.\<close>

definition or_number :: "number option \<Rightarrow> number option \<Rightarrow> number option" where
  "or_number a b = (case a of None \<Rightarrow> b | Some n \<Rightarrow> if n = 0 then b else Some n)"

text \<open>
  What the constructor reads from outside the program: \<open>process.env\<close>, and the built-in
  \<open>parseInt\<close> (\<open>None\<close> for \<open>NaN\<close>).
\<close>

record process =
  env :: "string \<Rightarrow> string option"
  parseInt :: "string \<Rightarrow> number option"

definition redis_options_of :: "process \<Rightarrow> 'ai SocialConfig \<Rightarrow> redis_options" where
  "redis_options_of p config =
     \<lparr> r_host = or_string (case redis config of None \<Rightarrow> None | Some r \<Rightarrow> host r)
                 (or_string (env p ''REDIS_HOST'') ''''),
       r_port = or_number (case redis config of None \<Rightarrow> None | Some r \<Rightarrow> port r)
                 (parseInt p (or_string (env p ''REDIS_PORT'') ''6379'')),
       r_password = or_string (case redis config of None \<Rightarrow> None | Some r \<Rightarrow> password r)
                 (or_string (env p ''REDIS_PASSWORD'') ''''),
       keyPrefix = ''jupiter-price:'',
       enableCircuitBreaker = True \<rparr>"

definition twitter_service_of ::
    "'ai SocialConfig \<Rightarrow> string \<Rightarrow> MarketDataProcessor \<Rightarrow> twitter_config \<Rightarrow> 'ai TwitterService" where
  "twitter_service_of config key dp tw =
     TwitterService
       \<lparr> t_apiKey = apiKey tw,
         t_apiSecret = apiSecret tw,
         t_accessToken = accessToken tw,
         t_accessSecret = accessSecret tw,
         t_bearerToken = bearerToken tw,
         t_mockMode = (case mockMode tw of None \<Rightarrow> False | Some b \<Rightarrow> b),
         t_maxRetries = (case maxRetries tw of None \<Rightarrow> 0 | Some n \<Rightarrow> n),
         t_retryDelay = (case retryDelay tw of None \<Rightarrow> 0 | Some n \<Rightarrow> n),
         t_baseUrl = ''https://api.twitter.com'',
         t_contentRules = (case contentRules tw of
                             None \<Rightarrow> \<lparr> maxEmojis = 0, maxHashtags = 0, minInterval = 0 \<rparr>
                           | Some r \<Rightarrow> r),
         t_oauthClientId = oauthClientId tw,
         t_oauthClientSecret = oauthClientSecret tw,
         marketDataConfig =
           \<lparr> heliusApiKey = key, updateInterval = 0, volatilityThreshold = 0 \<rparr>,
         tokenAddresses = [] \<rparr>
       (services_ai config)
       dp"

definition discord_service_of :: "'ai SocialConfig \<Rightarrow> discord_config \<Rightarrow> 'ai DiscordService" where
  "discord_service_of config d =
     DiscordService \<lparr> d_token = token d, d_guildId = guildId d, aiService = services_ai config \<rparr>"

text \<open>
  What the constructors of the imported classes do is not in the source: for each class,
  the library decides from the arguments whether \<open>new\<close> throws (\<open>Some e\<close>) or returns
  the object (\<open>None\<close>).
\<close>

record 'ai library =
  RedisCacheService_throws :: "RedisCacheService \<Rightarrow> error option"
  Connection_throws :: "Connection \<Rightarrow> error option"
  PublicKey_throws :: "PublicKey \<Rightarrow> error option"
  WalletProvider_throws :: "WalletProvider \<Rightarrow> error option"
  TokenProvider_throws :: "TokenProvider \<Rightarrow> error option"
  JupiterPriceV2Service_throws :: "JupiterPriceV2Service \<Rightarrow> error option"
  MarketDataProcessor_throws :: "MarketDataProcessor \<Rightarrow> error option"
  TwitterService_throws :: "'ai TwitterService \<Rightarrow> error option"
  DiscordService_throws :: "'ai DiscordService \<Rightarrow> error option"

text \<open>\<open>new C(args)\<close>: the error the library throws on these arguments, or the object.\<close>

definition construct :: "('a \<Rightarrow> error option) \<Rightarrow> 'a \<Rightarrow> error + 'a" where
  "construct throws obj = (case throws obj of None \<Rightarrow> Inr obj | Some e \<Rightarrow> Inl e)"

text \<open>One statement after another: an error thrown by the first skips the rest.\<close>

definition and_then :: "error + 'a \<Rightarrow> ('a \<Rightarrow> error + 'b) \<Rightarrow> error + 'b" where
  "and_then r f = (case r of Inl e \<Rightarrow> Inl e | Inr x \<Rightarrow> f x)"

text \<open>
  \<open>constructor(config)\<close>, in two parts: the statements after the guard
  (\<open>SocialService_build\<close>, given the key \<open>config.helius.apiKey\<close>), and the guard in front
  of them. The guard \<open>!config.helius?.apiKey\<close> is true when \<open>helius\<close> is undefined and
  when its \<open>apiKey\<close> is falsy, which for a string is the empty string. A \<open>throw\<close> is
  \<open>Inl\<close>, and then there is no object. After the guard the objects are constructed in
  the order of evaluation of the source: the cache service; for the token provider its
  arguments \<open>new Connection('')\<close> and \<open>new PublicKey('')\<close>, the wallet provider made of
  them, and the token provider itself; the price service; the data processor; then the
  two platform clients, each only when its configuration is present.
\<close>

definition SocialService_build ::
    "'ai library \<Rightarrow> process \<Rightarrow> 'ai SocialConfig \<Rightarrow> string \<Rightarrow> error + 'ai SocialService" where
  "SocialService_build lib p config key =
     and_then (construct (RedisCacheService_throws lib)
                (RedisCacheService (redis_options_of p config))) (\<lambda>redisService.
     and_then (construct (Connection_throws lib) (Connection '''')) (\<lambda>connection.
     and_then (construct (PublicKey_throws lib) (PublicKey '''')) (\<lambda>publicKey.
     and_then (construct (WalletProvider_throws lib)
                (WalletProvider connection publicKey)) (\<lambda>wallet.
     and_then (construct (TokenProvider_throws lib)
                (TokenProvider '''' wallet redisService
                   (or_string (env p ''API_KEY'') ''''))) (\<lambda>tokenProvider.
     and_then (construct (JupiterPriceV2Service_throws lib)
                (JupiterPriceV2Service
                   \<lparr> j_redis = redis_options_of p config,
                     rpcConnection =
                       \<lparr> url = or_string (env p ''SOLANA_RPC_URL'') '''',
                         walletPublicKey = or_string (env p ''SOLANA_PUBLIC_KEY'') '''' \<rparr> \<rparr>
                   tokenProvider redisService)) (\<lambda>jupiter.
     and_then (construct (MarketDataProcessor_throws lib)
                (MarketDataProcessor key ''https://tokens.jup.ag/tokens?tags=verified''
                   (env p ''SOLANA_PUBLIC_KEY''))) (\<lambda>dp.
     and_then (case twitter config of
                 None \<Rightarrow> Inr None
               | Some tw \<Rightarrow>
                   and_then (construct (TwitterService_throws lib)
                              (twitter_service_of config key dp tw))
                     (\<lambda>client. Inr (Some client))) (\<lambda>microblog.
     and_then (case discord config of
                 None \<Rightarrow> Inr None
               | Some d \<Rightarrow>
                   and_then (construct (DiscordService_throws lib)
                              (discord_service_of config d))
                     (\<lambda>client. Inr (Some client))) (\<lambda>chat.
     Inr \<lparr> twitterService = microblog,
           discordService = chat,
           dataProcessor = dp,
           jupiterService = jupiter \<rparr>)))))))))"

definition SocialService_new ::
    "'ai library \<Rightarrow> process \<Rightarrow> 'ai SocialConfig \<Rightarrow> error + 'ai SocialService" where
  "SocialService_new lib p config =
     (case helius config of
        None \<Rightarrow> Inl (Error ''Helius API key is required'')
      | Some h \<Rightarrow>
          if helius_apiKey h = []
          then Inl (Error ''Helius API key is required'')
          else SocialService_build lib p config (helius_apiKey h))"

text \<open>An error that a constructor of the library throws, on some arguments.\<close>

definition thrown_by_library :: "'ai library \<Rightarrow> error \<Rightarrow> bool" where
  "thrown_by_library lib e \<longleftrightarrow>
     (\<exists>x. RedisCacheService_throws lib x = Some e)
     \<or> (\<exists>x. Connection_throws lib x = Some e)
     \<or> (\<exists>x. PublicKey_throws lib x = Some e)
     \<or> (\<exists>x. WalletProvider_throws lib x = Some e)
     \<or> (\<exists>x. TokenProvider_throws lib x = Some e)
     \<or> (\<exists>x. JupiterPriceV2Service_throws lib x = Some e)
     \<or> (\<exists>x. MarketDataProcessor_throws lib x = Some e)
     \<or> (\<exists>x. TwitterService_throws lib x = Some e)
     \<or> (\<exists>x. DiscordService_throws lib x = Some e)"

section \<open>The methods of SocialService\<close>

text \<open>
  What the platform clients answer is not in the source: it is a parameter. Each method of
  a client is a function of the client, the arguments and the trace so far, giving how the
  returned promise settles. Every theorem below holds for all such functions, so for
  every behaviour of the clients in which their methods are asynchronous (they return a
  promise, and a failure is its rejection) and their promises settle.
\<close>

record 'ai platforms =
  tweet :: "'ai TwitterService \<Rightarrow> string \<Rightarrow> string option \<Rightarrow> trace \<Rightarrow> unit settled"
  twitter_initialize :: "'ai TwitterService \<Rightarrow> trace \<Rightarrow> unit settled"
  discord_sendMessage :: "'ai DiscordService \<Rightarrow> string \<Rightarrow> string \<Rightarrow> trace \<Rightarrow> unit settled"

text \<open>
  A call of a client's method: the call is recorded with its arguments, and the promise
  settles as the client decides. \<open>replyToTweetId\<close> is \<open>None\<close> for \<open>undefined\<close>.
\<close>

definition call_tweet ::
    "'ai platforms \<Rightarrow> 'ai TwitterService \<Rightarrow> string \<Rightarrow> string option \<Rightarrow> trace
      \<Rightarrow> unit settled \<times> trace" where
  "call_tweet ps tw content replyToTweetId \<sigma> =
     (tweet ps tw content replyToTweetId \<sigma>, \<sigma> @ [Call_tweet content replyToTweetId])"

definition call_twitter_initialize ::
    "'ai platforms \<Rightarrow> 'ai TwitterService \<Rightarrow> trace \<Rightarrow> unit settled \<times> trace" where
  "call_twitter_initialize ps tw \<sigma> =
     (twitter_initialize ps tw \<sigma>, \<sigma> @ [Call_twitter_initialize])"

definition call_discord_sendMessage ::
    "'ai platforms \<Rightarrow> 'ai DiscordService \<Rightarrow> string \<Rightarrow> string \<Rightarrow> trace
      \<Rightarrow> unit settled \<times> trace" where
  "call_discord_sendMessage ps d target content \<sigma> =
     (discord_sendMessage ps d target content \<sigma>,
      \<sigma> @ [Call_discord_sendMessage target content])"

text \<open>
  \<open>await Promise.all(promises)\<close>: fulfilled when every entry is, rejected with the reason
  of the entry whose rejection is seen first. In \<open>initialize\<close> only one entry can reject. In
  \<open>send\<close> the first entry is already settled when the second is created, so its rejection
  is seen first: the first rejected entry in list order decides.
\<close>

fun Promise_all :: "unit settled list \<Rightarrow> unit settled" where
  "Promise_all [] = Inr ()"
| "Promise_all (Inl e # ps) = Inl e"
| "Promise_all (Inr u # ps) = Promise_all ps"

definition initialize :: "'ai platforms \<Rightarrow> 'ai SocialService \<Rightarrow> trace \<Rightarrow> unit settled \<times> trace" where
  "initialize ps this \<sigma> =
     (let (initPromises1, \<sigma>1) =
            (case twitterService this of
               None \<Rightarrow> ([], \<sigma>)
             | Some tw \<Rightarrow>
                 (let (r, \<sigma>') = call_twitter_initialize ps tw \<sigma> in ([r], \<sigma>')));
          initPromises2 =
            (case discordService this of
               None \<Rightarrow> initPromises1
             | Some d \<Rightarrow> initPromises1 @ [Inr ()])
      in case Promise_all initPromises2 of
           Inr u \<Rightarrow>
             (Inr (), \<sigma>1 @ [ElizaLogger_success ''Social services initialized successfully''])
         | Inl e \<Rightarrow>
             (Inl e, \<sigma>1 @ [ElizaLogger_error ''Failed to initialize social services:'' e]))"

definition getCommunityMetrics :: "'ai SocialService \<Rightarrow> trace \<Rightarrow> SocialMetrics settled \<times> trace" where
  "getCommunityMetrics this \<sigma> =
     (Inr \<lparr> followers = 1000, engagement = 0.75, activity = ''High'' \<rparr>, \<sigma>)"

text \<open>
  \<open>send(content)\<close>. The tweet is awaited inside its own \<open>try\<close>: a failure is logged and
  pushed as a rejected promise, and control goes on to the chat client, whose promise is
  pushed as it is. The join at the end decides the result.
\<close>

definition send :: "'ai platforms \<Rightarrow> 'ai SocialService \<Rightarrow> string \<Rightarrow> trace \<Rightarrow> unit settled \<times> trace" where
  "send ps this content \<sigma> =
     (let (promises1, \<sigma>1) =
            (case twitterService this of
               None \<Rightarrow> ([], \<sigma>)
             | Some tw \<Rightarrow>
                 (case call_tweet ps tw content None \<sigma> of
                    (Inr u, \<sigma>') \<Rightarrow> ([Inr ()], \<sigma>')
                  | (Inl e, \<sigma>') \<Rightarrow>
                      ([Inl e], \<sigma>' @ [ElizaLogger_error ''Failed to send tweet:'' e])));
          (promises2, \<sigma>2) =
            (case discordService this of
               None \<Rightarrow> (promises1, \<sigma>1)
             | Some d \<Rightarrow>
                 (let (r, \<sigma>') = call_discord_sendMessage ps d ''System'' content \<sigma>1
                  in (promises1 @ [r], \<sigma>')))
      in (Promise_all promises2, \<sigma>2))"

text \<open>
  \<open>String.prototype.toLowerCase\<close> on code units below 256: the letters A to Z, and the
  capital letters of Latin-1 (192 to 222 but the multiplication sign 215), move up by 32.
\<close>

definition toLowerCase_unit :: "char \<Rightarrow> char" where
  "toLowerCase_unit c =
     (let n = (of_char c :: nat)
      in if (65 \<le> n \<and> n \<le> 90) \<or> (192 \<le> n \<and> n \<le> 214) \<or> (216 \<le> n \<and> n \<le> 222)
         then char_of (n + 32) else c)"

definition toLowerCase :: "string \<Rightarrow> string" where
  "toLowerCase s = map toLowerCase_unit s"

text \<open>
  \<open>sendMessage(platform, messageId, content)\<close>, in two parts: the \<open>switch\<close> inside the
  \<open>try\<close>, and the \<open>catch\<close> around it, which logs with the platform as the caller wrote it
  and throws the error again.
\<close>

definition sendMessage_switch ::
    "'ai platforms \<Rightarrow> 'ai SocialService \<Rightarrow> string \<Rightarrow> string \<Rightarrow> string \<Rightarrow> trace
      \<Rightarrow> unit settled \<times> trace" where
  "sendMessage_switch ps this platform messageId content \<sigma> =
     (if toLowerCase platform = ''twitter'' then
        (case twitterService this of
           None \<Rightarrow> (Inr (), \<sigma>)
         | Some tw \<Rightarrow> call_tweet ps tw content (Some messageId) \<sigma>)
      else if toLowerCase platform = ''discord'' then
        (case discordService this of
           None \<Rightarrow> (Inr (), \<sigma>)
         | Some d \<Rightarrow> call_discord_sendMessage ps d messageId content \<sigma>)
      else (Inl (Error (''Unsupported platform: '' @ platform)), \<sigma>))"

definition sendMessage ::
    "'ai platforms \<Rightarrow> 'ai SocialService \<Rightarrow> string \<Rightarrow> string \<Rightarrow> string \<Rightarrow> trace
      \<Rightarrow> unit settled \<times> trace" where
  "sendMessage ps this platform messageId content \<sigma> =
     (case sendMessage_switch ps this platform messageId content \<sigma> of
        (Inr u, \<sigma>') \<Rightarrow> (Inr (), \<sigma>')
      | (Inl e, \<sigma>') \<Rightarrow>
          (Inl e, \<sigma>' @ [ElizaLogger_error (''Failed to send message to '' @ platform @ '':'') e]))"

section \<open>The HTTP server\<close>

text \<open>
  \<open>AgentCoordinationService\<close> is imported, not part of the source: what its methods answer
  is a parameter, as for the platform clients.
\<close>

record coordination =
  registerAgent :: "jsval \<Rightarrow> trace \<Rightarrow> jsval settled"
  updateTaskStatus :: "jsval \<Rightarrow> jsval \<Rightarrow> jsval \<Rightarrow> trace \<Rightarrow> unit settled"

text \<open>
  Of a request the handlers read \<open>req.params\<close> and \<open>req.body\<close>; to the response they do
  \<open>res.status(n).json(v)\<close>, once.
\<close>

record request =
  req_params :: "(string \<times> string) list"
  req_body :: jsval

record response =
  res_status :: nat
  res_json :: jsval

text \<open>
  \<open>const { k } = v\<close>: a \<open>TypeError\<close> when \<open>v\<close> is \<open>undefined\<close> or \<open>null\<close>, the own property
  of an object, \<open>undefined\<close> when there is none. On the other values the keys read here
  (\<open>status\<close>, \<open>result\<close>) are no built-in property, so they are \<open>undefined\<close> too.
\<close>

fun destructure :: "jsval \<Rightarrow> string \<Rightarrow> error + jsval" where
  "destructure Undefined k =
     Inl (TypeError (''Cannot destructure property '' @ k @ '' of undefined''))"
| "destructure Null k =
     Inl (TypeError (''Cannot destructure property '' @ k @ '' of null''))"
| "destructure (Object fs) k = Inr (case map_of fs k of None \<Rightarrow> Undefined | Some v \<Rightarrow> v)"
| "destructure v k = Inr Undefined"

definition param :: "request \<Rightarrow> string \<Rightarrow> jsval" where
  "param req k = (case map_of (req_params req) k of None \<Rightarrow> Undefined | Some s \<Rightarrow> String s)"

definition post_agents :: "coordination \<Rightarrow> request \<Rightarrow> trace \<Rightarrow> response \<times> trace" where
  "post_agents cs req \<sigma> =
     (case registerAgent cs (req_body req) \<sigma> of
        Inr agent \<Rightarrow>
          (\<lparr> res_status = 201, res_json = agent \<rparr>, \<sigma> @ [Call_registerAgent (req_body req)])
      | Inl e \<Rightarrow>
          (\<lparr> res_status = 500,
             res_json = Object [(''error'', String ''Failed to register agent'')] \<rparr>,
           \<sigma> @ [Call_registerAgent (req_body req),
                Logger_error ''Error registering agent:'' e]))"

definition patch_task_status_failed :: "error \<Rightarrow> trace \<Rightarrow> response \<times> trace" where
  "patch_task_status_failed e \<sigma> =
     (\<lparr> res_status = 500,
        res_json = Object [(''error'', String ''Failed to update task status'')] \<rparr>,
      \<sigma> @ [Logger_error ''Error updating task status:'' e])"

definition patch_task_status :: "coordination \<Rightarrow> request \<Rightarrow> trace \<Rightarrow> response \<times> trace" where
  "patch_task_status cs req \<sigma> =
     (let taskId = param req ''taskId'' in
      case destructure (req_body req) ''status'' of
        Inl e \<Rightarrow> patch_task_status_failed e \<sigma>
      | Inr status \<Rightarrow>
          (case destructure (req_body req) ''result'' of
             Inl e \<Rightarrow> patch_task_status_failed e \<sigma>
           | Inr result \<Rightarrow>
               (case updateTaskStatus cs taskId status result \<sigma> of
                  Inl e \<Rightarrow>
                    patch_task_status_failed e
                      (\<sigma> @ [Call_updateTaskStatus taskId status result])
                | Inr u \<Rightarrow>
                    (\<lparr> res_status = 200,
                       res_json = Object [(''message'', String ''Task status updated'')] \<rparr>,
                     \<sigma> @ [Call_updateTaskStatus taskId status result]))))"

section \<open>Concrete inputs\<close>

text \<open>A predicate on events: the calls of the chat client's \<open>sendMessage\<close>.\<close>

fun is_chat_call :: "event \<Rightarrow> bool" where
  "is_chat_call (Call_discord_sendMessage target content) = True"
| "is_chat_call ev = False"

text \<open>A process with one environment variable set, and a \<open>parseInt\<close> that reads the default port.\<close>

definition local_process :: process where
  "local_process =
     \<lparr> env = (\<lambda>k. if k = ''REDIS_HOST'' then Some ''localhost'' else None),
       parseInt = (\<lambda>s. if s = ''6379'' then Some 6379 else None) \<rparr>"

text \<open>Three configurations: only the key, a key that is the empty string, both platforms.\<close>

definition key_only_config :: "unit SocialConfig" where
  "key_only_config =
     \<lparr> services_ai = (), discord = None, twitter = None,
       helius = Some \<lparr> helius_apiKey = ''helius-key'' \<rparr>, redis = None \<rparr>"

definition empty_key_config :: "unit SocialConfig" where
  "empty_key_config =
     \<lparr> services_ai = (), discord = None, twitter = None,
       helius = Some \<lparr> helius_apiKey = '''' \<rparr>, redis = None \<rparr>"

definition both_config :: "unit SocialConfig" where
  "both_config =
     \<lparr> services_ai = (),
       discord = Some \<lparr> token = ''discord-token'', guildId = ''guild'' \<rparr>,
       twitter = Some
         \<lparr> oauthClientId = ''id'', oauthClientSecret = ''secret'', apiKey = ''k'',
           apiSecret = ''s'', accessToken = ''at'', accessSecret = ''as'',
           bearerToken = ''bt'', mockMode = Some True, maxRetries = None,
           retryDelay = None, contentRules = None \<rparr>,
       helius = Some \<lparr> helius_apiKey = ''helius-key'' \<rparr>,
       redis = None \<rparr>"

text \<open>
  Two facade objects, given by their fields: one without platform clients, one with both.
  Their other collaborators are as constructors given a real endpoint and a real public
  key would leave them.
\<close>

definition sample_redis_options :: redis_options where
  "sample_redis_options =
     \<lparr> r_host = ''localhost'', r_port = Some 6379, r_password = '''',
       keyPrefix = ''jupiter-price:'', enableCircuitBreaker = True \<rparr>"

definition sample_dataProcessor :: MarketDataProcessor where
  "sample_dataProcessor =
     MarketDataProcessor ''helius-key'' ''https://tokens.jup.ag/tokens?tags=verified'' None"

definition sample_jupiter :: JupiterPriceV2Service where
  "sample_jupiter =
     JupiterPriceV2Service
       \<lparr> j_redis = sample_redis_options,
         rpcConnection =
           \<lparr> url = ''https://api.devnet.solana.com'',
             walletPublicKey = ''11111111111111111111111111111111'' \<rparr> \<rparr>
       (TokenProvider ''''
          (WalletProvider (Connection ''https://api.devnet.solana.com'')
             (PublicKey ''11111111111111111111111111111111''))
          (RedisCacheService sample_redis_options) '''')
       (RedisCacheService sample_redis_options)"

definition both_twitter :: "unit TwitterService" where
  "both_twitter =
     twitter_service_of both_config ''helius-key'' sample_dataProcessor
       \<lparr> oauthClientId = ''id'', oauthClientSecret = ''secret'', apiKey = ''k'',
         apiSecret = ''s'', accessToken = ''at'', accessSecret = ''as'',
         bearerToken = ''bt'', mockMode = Some True, maxRetries = None,
         retryDelay = None, contentRules = None \<rparr>"

definition both_discord :: "unit DiscordService" where
  "both_discord =
     discord_service_of both_config \<lparr> token = ''discord-token'', guildId = ''guild'' \<rparr>"

definition key_only_facade :: "unit SocialService" where
  "key_only_facade =
     \<lparr> twitterService = None, discordService = None,
       dataProcessor = sample_dataProcessor, jupiterService = sample_jupiter \<rparr>"

definition both_facade :: "unit SocialService" where
  "both_facade =
     \<lparr> twitterService = Some both_twitter, discordService = Some both_discord,
       dataProcessor = sample_dataProcessor, jupiterService = sample_jupiter \<rparr>"

text \<open>
  A library whose \<open>Connection\<close> and \<open>PublicKey\<close> do as those of the package
  \<open>@solana/web3.js\<close>, which the source imports them from, do on the arguments the source
  passes: \<open>new Connection(endpoint)\<close> throws a \<open>TypeError\<close> unless the endpoint starts
  with \<open>http:\<close> or \<open>https:\<close>, and \<open>new PublicKey('')\<close> throws. The other constructors
  return.
\<close>

definition solana_web3 :: "'ai library" where
  "solana_web3 =
     \<lparr> RedisCacheService_throws = (\<lambda>x. None),
       Connection_throws =
         (\<lambda>x. case x of Connection endpoint \<Rightarrow>
                if take 5 endpoint = ''http:'' \<or> take 6 endpoint = ''https:'' then None
                else Some (TypeError ''Endpoint URL must start with `http:` or `https:`.'')),
       PublicKey_throws =
         (\<lambda>x. case x of PublicKey s \<Rightarrow>
                if s = [] then Some (Error ''Invalid public key input'') else None),
       WalletProvider_throws = (\<lambda>x. None),
       TokenProvider_throws = (\<lambda>x. None),
       JupiterPriceV2Service_throws = (\<lambda>x. None),
       MarketDataProcessor_throws = (\<lambda>x. None),
       TwitterService_throws = (\<lambda>x. None),
       DiscordService_throws = (\<lambda>x. None) \<rparr>"

text \<open>Platform clients: every call fails; only the chat client fails; only the tweet fails.\<close>

definition all_fail :: "unit platforms" where
  "all_fail =
     \<lparr> tweet = (\<lambda>tw content replyTo \<sigma>. Inl (Error ''tweet failed'')),
       twitter_initialize = (\<lambda>tw \<sigma>. Inl (Error ''login failed'')),
       discord_sendMessage = (\<lambda>d target content \<sigma>. Inl (Error ''chat failed'')) \<rparr>"

definition chat_fails :: "unit platforms" where
  "chat_fails =
     \<lparr> tweet = (\<lambda>tw content replyTo \<sigma>. Inr ()),
       twitter_initialize = (\<lambda>tw \<sigma>. Inr ()),
       discord_sendMessage = (\<lambda>d target content \<sigma>. Inl (Error ''chat failed'')) \<rparr>"

definition tweet_fails :: "unit platforms" where
  "tweet_fails =
     \<lparr> tweet = (\<lambda>tw content replyTo \<sigma>. Inl (Error ''tweet failed'')),
       twitter_initialize = (\<lambda>tw \<sigma>. Inr ()),
       discord_sendMessage = (\<lambda>d target content \<sigma>. Inr ()) \<rparr>"

text \<open>A coordination service that answers, and one that throws on every call.\<close>

definition coordination_up :: coordination where
  "coordination_up =
     \<lparr> registerAgent = (\<lambda>payload \<sigma>. Inr (Object [(''id'', String ''agent-1'')])),
       updateTaskStatus = (\<lambda>taskId status result \<sigma>. Inr ()) \<rparr>"

definition coordination_down :: coordination where
  "coordination_down =
     \<lparr> registerAgent = (\<lambda>payload \<sigma>. Inl (Error ''connection refused 10.0.0.5:5432'')),
       updateTaskStatus =
         (\<lambda>taskId status result \<sigma>. Inl (Error ''connection refused 10.0.0.5:5432'')) \<rparr>"

section \<open>Facts about the concrete inputs\<close>

lemma key_only_twitter: "twitterService key_only_facade = None"
  by (simp add: key_only_facade_def)

lemma key_only_discord: "discordService key_only_facade = None"
  by (simp add: key_only_facade_def)

lemma both_has_twitter: "twitterService both_facade = Some both_twitter"
  by (simp add: both_facade_def)

lemma both_has_discord: "discordService both_facade = Some both_discord"
  by (simp add: both_facade_def)

lemma lower_TWITTER: "toLowerCase ''TWITTER'' = ''twitter''"
  by code_simp

lemma lower_twitter: "toLowerCase ''twitter'' = ''twitter''"
  by code_simp

lemma lower_Twitter: "toLowerCase ''Twitter'' = ''twitter''"
  by code_simp

lemma lower_DISCORD: "toLowerCase ''DISCORD'' = ''discord''"
  by code_simp

lemma lower_mastodon: "toLowerCase ''mastodon'' = ''mastodon''"
  by code_simp

section \<open>The constructor: its guard and what follows it\<close>

lemma construct_Inl: "construct throws obj = Inl e \<Longrightarrow> throws obj = Some e"
  by (simp add: construct_def split: option.splits)

lemma and_then_Inl:
  "and_then r f = Inl e \<Longrightarrow> r = Inl e \<or> (\<exists>x. r = Inr x \<and> f x = Inl e)"
  by (cases r) (simp_all add: and_then_def)

lemma build_error_thrown_by_library:
  assumes "SocialService_build lib p config key = Inl e"
  shows "thrown_by_library lib e"
proof -
  have opt: "thrown_by_library lib e"
    if "(case c of None \<Rightarrow> Inr None
         | Some v \<Rightarrow> and_then (construct t (g v)) (\<lambda>client. Inr (Some client))) = Inl e"
      and "\<And>x. t x = Some e \<Longrightarrow> thrown_by_library lib e"
    for c :: "'c option" and t :: "'d \<Rightarrow> error option" and g :: "'c \<Rightarrow> 'd"
  proof (cases c)
    case None
    with that(1) show ?thesis by simp
  next
    case (Some v)
    with that(1) have "construct t (g v) = Inl e"
      by (auto dest: and_then_Inl)
    then show ?thesis by (auto dest: construct_Inl intro: that(2))
  qed
  have tw: "\<And>x. TwitterService_throws lib x = Some e \<Longrightarrow> thrown_by_library lib e"
    and dc: "\<And>x. DiscordService_throws lib x = Some e \<Longrightarrow> thrown_by_library lib e"
    by (auto simp: thrown_by_library_def)
  from assms show ?thesis
    unfolding SocialService_build_def
    apply (elim and_then_Inl [THEN disjE] exE conjE)
    apply (auto dest!: construct_Inl simp: thrown_by_library_def)[7]
    apply (erule opt, erule tw)
    apply (erule opt, erule dc)
    apply simp
    done
qed

lemma send_without_clients_is_noop:
  assumes "twitterService this = None" and "discordService this = None"
  shows "send ps this content \<sigma> = (Inr (), \<sigma>)"
  using assms by (simp add: send_def)

text \<open>
  C1 (amended). For every library, process environment and configuration, whatever its
  twitter, discord and redis parts: when the helius part is missing or its key is the
  empty string, the constructor throws \<open>Helius API key is required\<close> and there is no
  object. When the helius part is there with a key that is not empty, the guard does
  not throw: the constructor does what the statements after the guard do, and an error
  it ends with is one that a constructor of the library threw. The claim as written
  lets every present key through; the guard tests truthiness, and the empty string is a
  present key that it refuses.
\<close>

theorem constructor_guard_refuses_missing_or_empty_key:
  "(helius config = None \<or> (\<exists>h. helius config = Some h \<and> helius_apiKey h = '''')
      \<longrightarrow> SocialService_new lib p config = Inl (Error ''Helius API key is required''))
   \<and> (\<forall>h. helius config = Some h \<and> helius_apiKey h \<noteq> ''''
      \<longrightarrow> SocialService_new lib p config = SocialService_build lib p config (helius_apiKey h)
          \<and> (\<forall>e. SocialService_new lib p config = Inl e \<longrightarrow> thrown_by_library lib e))"
proof -
  have refused: "SocialService_new lib p config = Inl (Error ''Helius API key is required'')"
    if "helius config = None \<or> (\<exists>h. helius config = Some h \<and> helius_apiKey h = '''')"
    using that by (auto simp: SocialService_new_def)
  have passed: "SocialService_new lib p config = SocialService_build lib p config (helius_apiKey h)"
    if "helius config = Some h" and "helius_apiKey h \<noteq> ''''" for h
    using that by (simp add: SocialService_new_def)
  have library: "thrown_by_library lib e"
    if "helius config = Some h" and "helius_apiKey h \<noteq> ''''"
      and "SocialService_new lib p config = Inl e" for h e
    using that passed [OF that(1,2)] by (simp add: build_error_thrown_by_library)
  from refused passed library show ?thesis by blast
qed

theorem constructor_guard_refuses_missing_or_empty_key_witness:
  "helius empty_key_config = Some \<lparr> helius_apiKey = '''' \<rparr>
   \<and> SocialService_new (solana_web3 :: unit library) local_process empty_key_config
       = Inl (Error ''Helius API key is required'')
   \<and> helius key_only_config = Some \<lparr> helius_apiKey = ''helius-key'' \<rparr>
   \<and> SocialService_new (solana_web3 :: unit library) local_process key_only_config
       = SocialService_build solana_web3 local_process key_only_config ''helius-key''
   \<and> SocialService_new (solana_web3 :: unit library) local_process key_only_config
       = Inl (TypeError ''Endpoint URL must start with `http:` or `https:`.'')
   \<and> thrown_by_library (solana_web3 :: unit library)
       (TypeError ''Endpoint URL must start with `http:` or `https:`.'')"
proof -
  have a: "helius empty_key_config = Some \<lparr> helius_apiKey = '''' \<rparr>"
    by (simp add: empty_key_config_def)
  have b: "helius key_only_config = Some \<lparr> helius_apiKey = ''helius-key'' \<rparr>"
    by (simp add: key_only_config_def)
  have c: "SocialService_build (solana_web3 :: unit library) local_process key_only_config
             ''helius-key''
           = Inl (TypeError ''Endpoint URL must start with `http:` or `https:`.'')"
    by (simp add: SocialService_build_def and_then_def construct_def solana_web3_def)
  from constructor_guard_refuses_missing_or_empty_key
         [of empty_key_config "solana_web3 :: unit library" local_process]
       constructor_guard_refuses_missing_or_empty_key
         [of key_only_config "solana_web3 :: unit library" local_process]
       a b c
  show ?thesis by simp
qed

text \<open>
  C1, the claim as written, at a configuration whose helius part is present and carries
  the key \<open>""\<close>: the constructor throws the error of the missing key.
\<close>

theorem constructor_throws_on_present_empty_key:
  "helius empty_key_config = Some \<lparr> helius_apiKey = '''' \<rparr>
   \<and> SocialService_new (solana_web3 :: unit library) local_process empty_key_config
       = Inl (Error ''Helius API key is required'')"
  by (simp add: SocialService_new_def empty_key_config_def)

text \<open>
  C4. The claim has the constructor yield an object for a configuration with only the
  key. It does not: past the guard the source constructs \<open>new Connection('')\<close> as a
  placeholder argument, which the library refuses, so the constructor throws the
  library's \<open>TypeError\<close> at the configuration with only the key, and with this library
  no process environment and no configuration gives an object. (On an object without
  platform clients \<open>send\<close> does nothing and is fulfilled, lemma
  \<open>send_without_clients_is_noop\<close>; the constructor never makes one.)
\<close>

theorem constructor_stops_at_placeholder_Connection:
  "SocialService_new (solana_web3 :: unit library) local_process key_only_config
     = Inl (TypeError ''Endpoint URL must start with `http:` or `https:`.'')
   \<and> SocialService_new solana_web3 p config \<noteq> Inr this"
proof -
  have build: "SocialService_build solana_web3 p config key
                 = Inl (TypeError ''Endpoint URL must start with `http:` or `https:`.'')"
    for p and config :: "'b SocialConfig" and key
    by (simp add: SocialService_build_def and_then_def construct_def solana_web3_def)
  have "SocialService_new solana_web3 p config \<noteq> Inr this"
    by (simp add: SocialService_new_def build split: option.splits)
  moreover
  have "SocialService_new (solana_web3 :: unit library) local_process key_only_config
          = Inl (TypeError ''Endpoint URL must start with `http:` or `https:`.'')"
    by (simp add: SocialService_new_def build key_only_config_def)
  ultimately show ?thesis by simp
qed

section \<open>getCommunityMetrics\<close>

text \<open>
  C2. On every facade object and in every state of the world, so before and after
  \<open>initialize\<close>, \<open>getCommunityMetrics\<close> is fulfilled with the record of followers 1000,
  engagement 0.75 and activity \<open>High\<close>, and does nothing else.
\<close>

theorem getCommunityMetrics_fixed:
  "getCommunityMetrics this \<sigma> =
     (Inr \<lparr> followers = 1000, engagement = 0.75, activity = ''High'' \<rparr>, \<sigma>)
   \<and> getCommunityMetrics this (snd (initialize ps this \<sigma>)) =
     (Inr \<lparr> followers = 1000, engagement = 0.75, activity = ''High'' \<rparr>,
      snd (initialize ps this \<sigma>))"
  by (simp add: getCommunityMetrics_def)

section \<open>send: the broadcast\<close>

text \<open>
  C5. With both clients configured, when the tweet of the content is fulfilled and the
  chat client's send of it, made after the tweet, is rejected with \<open>e\<close>: \<open>send(content)\<close>
  is rejected with that same \<open>e\<close>, and the trace shows the tweet called (and awaited)
  before the chat send was made.
\<close>

theorem send_chat_failure_after_tweet:
  assumes "twitterService this = Some tw"
    and "discordService this = Some d"
    and "tweet ps tw content None \<sigma> = Inr ()"
    and "discord_sendMessage ps d ''System'' content (\<sigma> @ [Call_tweet content None]) = Inl e"
  shows "send ps this content \<sigma> =
           (Inl e, \<sigma> @ [Call_tweet content None, Call_discord_sendMessage ''System'' content])"
  using assms by (simp add: send_def call_tweet_def call_discord_sendMessage_def)

theorem send_chat_failure_after_tweet_witness:
  "twitterService both_facade = Some both_twitter
   \<and> discordService both_facade = Some both_discord
   \<and> tweet chat_fails both_twitter ''gm'' None [] = Inr ()
   \<and> discord_sendMessage chat_fails both_discord ''System'' ''gm'' [Call_tweet ''gm'' None]
       = Inl (Error ''chat failed'')
   \<and> send chat_fails both_facade ''gm'' [] =
       (Inl (Error ''chat failed''),
        [Call_tweet ''gm'' None, Call_discord_sendMessage ''System'' ''gm''])"
proof -
  have a: "tweet chat_fails both_twitter ''gm'' None [] = Inr ()"
    by (simp add: chat_fails_def)
  have b: "discord_sendMessage chat_fails both_discord ''System'' ''gm''
             ([] @ [Call_tweet ''gm'' None]) = Inl (Error ''chat failed'')"
    by (simp add: chat_fails_def)
  from send_chat_failure_after_tweet [OF both_has_twitter both_has_discord a b]
       both_has_twitter both_has_discord a b
  show ?thesis by simp
qed

text \<open>
  C6. With a microblogging client configured, when the tweet of the content is rejected
  with \<open>e\<close>: the failure is logged and control goes on (the chat send, if a chat client
  is configured, is still made, after the log line), and \<open>send(content)\<close> as a whole is
  rejected with \<open>e\<close>, whatever the chat client answers.
\<close>

theorem send_tweet_failure_surfaces:
  assumes "twitterService this = Some tw"
    and "tweet ps tw content None \<sigma> = Inl e"
  shows "fst (send ps this content \<sigma>) = Inl e
         \<and> snd (send ps this content \<sigma>) =
             \<sigma> @ [Call_tweet content None, ElizaLogger_error ''Failed to send tweet:'' e]
               @ (case discordService this of
                    None \<Rightarrow> []
                  | Some d \<Rightarrow> [Call_discord_sendMessage ''System'' content])"
  using assms
  by (simp add: send_def call_tweet_def call_discord_sendMessage_def split: option.splits)

theorem send_tweet_failure_surfaces_witness:
  "twitterService both_facade = Some both_twitter
   \<and> tweet all_fail both_twitter ''gm'' None [] = Inl (Error ''tweet failed'')
   \<and> fst (send all_fail both_facade ''gm'' []) = Inl (Error ''tweet failed'')
   \<and> snd (send all_fail both_facade ''gm'' []) =
       [Call_tweet ''gm'' None,
        ElizaLogger_error ''Failed to send tweet:'' (Error ''tweet failed''),
        Call_discord_sendMessage ''System'' ''gm'']"
proof -
  have a: "tweet all_fail both_twitter ''gm'' None [] = Inl (Error ''tweet failed'')"
    by (simp add: all_fail_def)
  from send_tweet_failure_surfaces [OF both_has_twitter a] both_has_twitter both_has_discord a
  show ?thesis by simp
qed

text \<open>
  C10. With a chat client configured, \<open>send(content)\<close> calls the chat client's
  \<open>sendMessage\<close> exactly once, with first argument \<open>System\<close> and second argument the
  content, for every content and whatever the tweet did: these are the only chat calls it
  adds to the trace.
\<close>

theorem send_chat_target_is_System:
  assumes "discordService this = Some d"
  shows "filter is_chat_call (snd (send ps this content \<sigma>)) =
           filter is_chat_call \<sigma> @ [Call_discord_sendMessage ''System'' content]"
  using assms
  by (simp add: send_def call_tweet_def call_discord_sendMessage_def
        split: option.splits sum.splits prod.splits)

theorem send_chat_target_is_System_witness:
  "discordService both_facade = Some both_discord
   \<and> filter is_chat_call
       (snd (send tweet_fails both_facade ''gm'' [Call_discord_sendMessage ''general'' ''hi'']))
     = [Call_discord_sendMessage ''general'' ''hi'', Call_discord_sendMessage ''System'' ''gm'']"
  using send_chat_target_is_System [OF both_has_discord, of tweet_fails "''gm''"
      "[Call_discord_sendMessage ''general'' ''hi'']"] both_has_discord
  by simp

section \<open>sendMessage: one platform\<close>

text \<open>
  C3 (amended). Two platform names with the same lowercasing, that being \<open>twitter\<close> or
  \<open>discord\<close>, run the same branch of the switch: the same client call with the same
  arguments, the same outcome, and when that outcome is success the two calls of
  \<open>sendMessage\<close> are equal in everything. When the branch fails, each call appends one
  log line that carries the platform as the caller spelled it, and is rejected with the
  same error. A platform name whose lowercasing is neither is rejected with the error
  \<open>Unsupported platform: \<close> followed by the name as passed, after one log line.
\<close>

theorem sendMessage_dispatch_ignores_case:
  assumes "toLowerCase p = toLowerCase q"
  shows "(toLowerCase p = ''twitter'' \<or> toLowerCase p = ''discord''
            \<longrightarrow> sendMessage_switch ps this p messageId content \<sigma> =
                  sendMessage_switch ps this q messageId content \<sigma>
              \<and> fst (sendMessage ps this p messageId content \<sigma>) =
                  fst (sendMessage ps this q messageId content \<sigma>)
              \<and> (fst (sendMessage ps this p messageId content \<sigma>) = Inr ()
                  \<longrightarrow> sendMessage ps this p messageId content \<sigma> =
                        sendMessage ps this q messageId content \<sigma>))
         \<and> snd (sendMessage ps this p messageId content \<sigma>) =
             snd (sendMessage_switch ps this p messageId content \<sigma>)
             @ (case fst (sendMessage_switch ps this p messageId content \<sigma>) of
                  Inr u \<Rightarrow> []
                | Inl e \<Rightarrow> [ElizaLogger_error (''Failed to send message to '' @ p @ '':'') e])
         \<and> (toLowerCase p \<noteq> ''twitter'' \<and> toLowerCase p \<noteq> ''discord''
            \<longrightarrow> sendMessage ps this p messageId content \<sigma> =
                  (Inl (Error (''Unsupported platform: '' @ p)),
                   \<sigma> @ [ElizaLogger_error (''Failed to send message to '' @ p @ '':'')
                          (Error (''Unsupported platform: '' @ p))]))"
proof -
  have sw: "sendMessage_switch ps this p messageId content \<sigma> =
            sendMessage_switch ps this q messageId content \<sigma>"
    if "toLowerCase p = ''twitter'' \<or> toLowerCase p = ''discord''"
    using that assms by (auto simp: sendMessage_switch_def)
  have res: "fst (sendMessage ps this r messageId content \<sigma>) =
             fst (sendMessage_switch ps this r messageId content \<sigma>)" for r
    by (simp add: sendMessage_def split: prod.splits sum.splits)
  have ok: "sendMessage ps this r messageId content \<sigma> =
            sendMessage_switch ps this r messageId content \<sigma>"
    if "fst (sendMessage_switch ps this r messageId content \<sigma>) = Inr ()" for r
    using that
    by (cases "sendMessage_switch ps this r messageId content \<sigma>") (simp add: sendMessage_def)
  have tr: "snd (sendMessage ps this p messageId content \<sigma>) =
              snd (sendMessage_switch ps this p messageId content \<sigma>)
              @ (case fst (sendMessage_switch ps this p messageId content \<sigma>) of
                   Inr u \<Rightarrow> []
                 | Inl e \<Rightarrow> [ElizaLogger_error (''Failed to send message to '' @ p @ '':'') e])"
    by (simp add: sendMessage_def split: prod.splits sum.splits)
  have un: "sendMessage ps this p messageId content \<sigma> =
              (Inl (Error (''Unsupported platform: '' @ p)),
               \<sigma> @ [ElizaLogger_error (''Failed to send message to '' @ p @ '':'')
                      (Error (''Unsupported platform: '' @ p))])"
    if "toLowerCase p \<noteq> ''twitter''" and "toLowerCase p \<noteq> ''discord''"
    using that by (simp add: sendMessage_def sendMessage_switch_def)
  have same: "sendMessage ps this p messageId content \<sigma> =
              sendMessage ps this q messageId content \<sigma>"
    if "toLowerCase p = ''twitter'' \<or> toLowerCase p = ''discord''"
      and "fst (sendMessage ps this p messageId content \<sigma>) = Inr ()"
  proof -
    from that(2) have "fst (sendMessage_switch ps this p messageId content \<sigma>) = Inr ()"
      by (simp add: res)
    moreover from this sw [OF that(1)]
    have "fst (sendMessage_switch ps this q messageId content \<sigma>) = Inr ()"
      by simp
    ultimately show ?thesis
      using sw [OF that(1)] by (simp add: ok)
  qed
  from sw res tr un same show ?thesis by simp
qed

theorem sendMessage_dispatch_ignores_case_witness:
  "toLowerCase ''TWITTER'' = toLowerCase ''twitter''
   \<and> toLowerCase ''TWITTER'' = ''twitter''
   \<and> sendMessage_switch tweet_fails both_facade ''TWITTER'' ''42'' ''gm'' [] =
       sendMessage_switch tweet_fails both_facade ''twitter'' ''42'' ''gm'' []
   \<and> fst (sendMessage tweet_fails both_facade ''TWITTER'' ''42'' ''gm'' []) =
       fst (sendMessage tweet_fails both_facade ''twitter'' ''42'' ''gm'' [])
   \<and> sendMessage chat_fails both_facade ''TWITTER'' ''42'' ''gm'' [] =
       sendMessage chat_fails both_facade ''twitter'' ''42'' ''gm'' []
   \<and> toLowerCase ''mastodon'' \<noteq> ''twitter'' \<and> toLowerCase ''mastodon'' \<noteq> ''discord''
   \<and> sendMessage tweet_fails both_facade ''mastodon'' ''42'' ''gm'' [] =
       (Inl (Error ''Unsupported platform: mastodon''),
        [ElizaLogger_error ''Failed to send message to mastodon:''
           (Error ''Unsupported platform: mastodon'')])"
proof -
  have eq: "toLowerCase ''TWITTER'' = toLowerCase ''twitter''"
    by (simp add: lower_TWITTER lower_twitter)
  have ok: "fst (sendMessage chat_fails both_facade ''TWITTER'' ''42'' ''gm'' []) = Inr ()"
    by (simp add: sendMessage_def sendMessage_switch_def lower_TWITTER both_has_twitter
          call_tweet_def chat_fails_def)
  from sendMessage_dispatch_ignores_case [OF eq, of tweet_fails both_facade "''42''" "''gm''" "[]"]
       sendMessage_dispatch_ignores_case [OF eq, of chat_fails both_facade "''42''" "''gm''" "[]"]
       sendMessage_dispatch_ignores_case [OF refl, of "''mastodon''" tweet_fails both_facade
         "''42''" "''gm''" "[]"]
       ok
  show ?thesis by (simp add: lower_TWITTER lower_twitter lower_mastodon)
qed

text \<open>
  C3, the claim as written, with a microblogging client whose tweet is rejected: the
  calls with \<open>TWITTER\<close> and with \<open>twitter\<close> do not behave identically, their log lines
  differ.
\<close>

theorem sendMessage_casing_changes_log:
  "sendMessage tweet_fails both_facade ''TWITTER'' ''42'' ''gm'' []
     \<noteq> sendMessage tweet_fails both_facade ''twitter'' ''42'' ''gm'' []"
  by (simp add: sendMessage_def sendMessage_switch_def lower_TWITTER lower_twitter
        both_has_twitter call_tweet_def tweet_fails_def)

text \<open>
  C7. For a platform name that lowercases to \<open>twitter\<close> on an object with no
  microblogging client, and for one that lowercases to \<open>discord\<close> on an object with no
  chat client, \<open>sendMessage\<close> is fulfilled for every message id and content, and adds
  nothing to the trace: no send, no log line.
\<close>

theorem sendMessage_unconfigured_is_noop:
  "(toLowerCase platform = ''twitter'' \<and> twitterService this = None
      \<longrightarrow> sendMessage ps this platform messageId content \<sigma> = (Inr (), \<sigma>))
   \<and> (toLowerCase platform = ''discord'' \<and> discordService this = None
      \<longrightarrow> sendMessage ps this platform messageId content \<sigma> = (Inr (), \<sigma>))"
  by (simp add: sendMessage_def sendMessage_switch_def)

theorem sendMessage_unconfigured_is_noop_witness:
  "toLowerCase ''Twitter'' = ''twitter'' \<and> twitterService key_only_facade = None
   \<and> sendMessage all_fail key_only_facade ''Twitter'' ''17'' ''gm'' [] = (Inr (), [])
   \<and> toLowerCase ''DISCORD'' = ''discord'' \<and> discordService key_only_facade = None
   \<and> sendMessage all_fail key_only_facade ''DISCORD'' ''general'' ''gm'' [] = (Inr (), [])"
  using sendMessage_unconfigured_is_noop
          [of "''Twitter''" key_only_facade all_fail "''17''" "''gm''" "[]"]
        sendMessage_unconfigured_is_noop
          [of "''DISCORD''" key_only_facade all_fail "''general''" "''gm''" "[]"]
        lower_Twitter lower_DISCORD key_only_twitter key_only_discord
  by simp

section \<open>The HTTP handlers\<close>

text \<open>
  C8. For every task id, status and result, the handler of
  \<open>PATCH /tasks/:taskId/status\<close> on the body \<open>{status, result}\<close> calls \<open>updateTaskStatus\<close>
  with the task id, the status and the result, first of all. When the call is
  fulfilled the response is 200 with the message \<open>Task status updated\<close>; when it is
  rejected, with any error, the response is 500 with the body
  \<open>{"error":"Failed to update task status"}\<close>, and the error goes to the log only.
\<close>

theorem patch_task_status_contract:
  "(\<exists>log. snd (patch_task_status cs
              \<lparr> req_params = [(''taskId'', taskId)],
                req_body = Object [(''status'', status), (''result'', result)] \<rparr> \<sigma>) =
          \<sigma> @ Call_updateTaskStatus (String taskId) status result # log)
   \<and> (updateTaskStatus cs (String taskId) status result \<sigma> = Inr ()
      \<longrightarrow> patch_task_status cs
            \<lparr> req_params = [(''taskId'', taskId)],
              req_body = Object [(''status'', status), (''result'', result)] \<rparr> \<sigma> =
          (\<lparr> res_status = 200,
             res_json = Object [(''message'', String ''Task status updated'')] \<rparr>,
           \<sigma> @ [Call_updateTaskStatus (String taskId) status result]))
   \<and> (updateTaskStatus cs (String taskId) status result \<sigma> = Inl e
      \<longrightarrow> patch_task_status cs
            \<lparr> req_params = [(''taskId'', taskId)],
              req_body = Object [(''status'', status), (''result'', result)] \<rparr> \<sigma> =
          (\<lparr> res_status = 500,
             res_json = Object [(''error'', String ''Failed to update task status'')] \<rparr>,
           \<sigma> @ [Call_updateTaskStatus (String taskId) status result,
                Logger_error ''Error updating task status:'' e]))"
proof -
  have called: "\<exists>log. snd (patch_task_status cs
              \<lparr> req_params = [(''taskId'', taskId)],
                req_body = Object [(''status'', status), (''result'', result)] \<rparr> \<sigma>) =
          \<sigma> @ Call_updateTaskStatus (String taskId) status result # log"
    by (cases "updateTaskStatus cs (String taskId) status result \<sigma>")
       (simp_all add: patch_task_status_def patch_task_status_failed_def param_def)
  show ?thesis
    using called by (simp add: patch_task_status_def patch_task_status_failed_def param_def)
qed

theorem patch_task_status_contract_witness:
  "updateTaskStatus coordination_up (String ''abc'') (String ''done'') (Object []) [] = Inr ()
   \<and> patch_task_status coordination_up
       \<lparr> req_params = [(''taskId'', ''abc'')],
         req_body = Object [(''status'', String ''done''), (''result'', Object [])] \<rparr> [] =
     (\<lparr> res_status = 200, res_json = Object [(''message'', String ''Task status updated'')] \<rparr>,
      [Call_updateTaskStatus (String ''abc'') (String ''done'') (Object [])])
   \<and> updateTaskStatus coordination_down (String ''abc'') (String ''done'') (Object []) [] =
       Inl (Error ''connection refused 10.0.0.5:5432'')
   \<and> patch_task_status coordination_down
       \<lparr> req_params = [(''taskId'', ''abc'')],
         req_body = Object [(''status'', String ''done''), (''result'', Object [])] \<rparr> [] =
     (\<lparr> res_status = 500,
        res_json = Object [(''error'', String ''Failed to update task status'')] \<rparr>,
      [Call_updateTaskStatus (String ''abc'') (String ''done'') (Object []),
       Logger_error ''Error updating task status:'' (Error ''connection refused 10.0.0.5:5432'')])"
proof -
  have up: "updateTaskStatus coordination_up (String ''abc'') (String ''done'') (Object []) []
              = Inr ()"
    by (simp add: coordination_up_def)
  have down: "updateTaskStatus coordination_down (String ''abc'') (String ''done'') (Object []) []
                = Inl (Error ''connection refused 10.0.0.5:5432'')"
    by (simp add: coordination_down_def)
  from patch_task_status_contract
         [of coordination_up "''abc''" "String ''done''" "Object []" "[]"]
       patch_task_status_contract
         [of coordination_down "''abc''" "String ''done''" "Object []" "[]"
            "Error ''connection refused 10.0.0.5:5432''"]
       up down
  show ?thesis by simp
qed

text \<open>
  C9. For every request, \<open>POST /agents\<close> hands the request body to \<open>registerAgent\<close>.
  When that call is fulfilled with an agent the response is 201 with the agent as its
  JSON; when it is rejected, with any error, the response is 500 with exactly the body
  \<open>{"error":"Failed to register agent"}\<close>: the error is in the server's log and
  nowhere in the response.
\<close>

theorem post_agents_contract:
  "(registerAgent cs (req_body req) \<sigma> = Inr agent
      \<longrightarrow> post_agents cs req \<sigma> =
          (\<lparr> res_status = 201, res_json = agent \<rparr>,
           \<sigma> @ [Call_registerAgent (req_body req)]))
   \<and> (registerAgent cs (req_body req) \<sigma> = Inl e
      \<longrightarrow> post_agents cs req \<sigma> =
          (\<lparr> res_status = 500,
             res_json = Object [(''error'', String ''Failed to register agent'')] \<rparr>,
           \<sigma> @ [Call_registerAgent (req_body req),
                Logger_error ''Error registering agent:'' e]))"
  by (simp add: post_agents_def)

theorem post_agents_contract_witness:
  "registerAgent coordination_up (Object [(''name'', String ''scout'')]) [] =
     Inr (Object [(''id'', String ''agent-1'')])
   \<and> post_agents coordination_up
       \<lparr> req_params = [], req_body = Object [(''name'', String ''scout'')] \<rparr> [] =
     (\<lparr> res_status = 201, res_json = Object [(''id'', String ''agent-1'')] \<rparr>,
      [Call_registerAgent (Object [(''name'', String ''scout'')])])
   \<and> registerAgent coordination_down (Object [(''name'', String ''scout'')]) [] =
       Inl (Error ''connection refused 10.0.0.5:5432'')
   \<and> post_agents coordination_down
       \<lparr> req_params = [], req_body = Object [(''name'', String ''scout'')] \<rparr> [] =
     (\<lparr> res_status = 500,
        res_json = Object [(''error'', String ''Failed to register agent'')] \<rparr>,
      [Call_registerAgent (Object [(''name'', String ''scout'')]),
       Logger_error ''Error registering agent:'' (Error ''connection refused 10.0.0.5:5432'')])"
proof -
  have up: "registerAgent coordination_up (Object [(''name'', String ''scout'')]) [] =
              Inr (Object [(''id'', String ''agent-1'')])"
    by (simp add: coordination_up_def)
  have down: "registerAgent coordination_down (Object [(''name'', String ''scout'')]) [] =
                Inl (Error ''connection refused 10.0.0.5:5432'')"
    by (simp add: coordination_down_def)
  from post_agents_contract
         [of coordination_up
            "\<lparr> req_params = [], req_body = Object [(''name'', String ''scout'')] \<rparr>" "[]"
            "Object [(''id'', String ''agent-1'')]"]
       post_agents_contract
         [of coordination_down
            "\<lparr> req_params = [], req_body = Object [(''name'', String ''scout'')] \<rparr>" "[]"
            _ "Error ''connection refused 10.0.0.5:5432''"]
       up down
  show ?thesis by simp
qed

end
